theory Spec2Isabelle
  imports Complex_Main "HOL-Library.Word"
begin

section \<open>C++ values\<close>

subsection \<open>Exceptions\<close>

text \<open>
  The sources throw two exception classes of \<^verbatim>\<open>lsst::pex::exceptions\<close>, each
  carrying a message.  The specification names failures by its own taxonomy:
  its \<^emph>\<open>ComputationError\<close> and \<^emph>\<open>PreconditionError\<close> are both thrown as
  \<^verbatim>\<open>RuntimeErrorException\<close>, its \<^emph>\<open>UnsupportedOperation\<close> as
  \<^verbatim>\<open>NotFoundException\<close>.  A function that may throw returns \<open>exn + 'a\<close>,
  with \<open>Inl\<close> for the exception.
\<close>

datatype exn = RuntimeErrorException string | NotFoundException string

subsection \<open>The type \<^verbatim>\<open>double\<close>\<close>

text \<open>
  The value of a \<^verbatim>\<open>double\<close> is a finite number, one of the two infinities, or
  not-a-number; the two zeros are one value.  A \<^verbatim>\<open>float\<close> converted to
  \<^verbatim>\<open>double\<close> keeps its value, so the entries of a float matrix are read as
  \<open>double\<close> too.

  The operations below are exact arithmetic on these values, with the special
  values treated as IEEE 754 treats them.  They are not the machine's
  operations, which round: the measurement code is modelled over the machine's
  operations as parameters (see \<open>double_ops\<close>), and the exact operations only
  serve to run the model where no operation rounds, since there a correctly
  rounded operation returns the exact result.
\<close>

datatype double = Fin real | PInf | NInf | NaN

instantiation double :: "{comm_monoid_add, uminus, minus, times, inverse}"
begin

definition zero_double :: double where
  "zero_double = Fin 0"

fun uminus_double :: "double \<Rightarrow> double" where
  "uminus_double (Fin a) = Fin (- a)"
| "uminus_double PInf = NInf"
| "uminus_double NInf = PInf"
| "uminus_double NaN = NaN"

fun plus_double :: "double \<Rightarrow> double \<Rightarrow> double" where
  "plus_double NaN b = NaN"
| "plus_double a NaN = NaN"
| "plus_double PInf NInf = NaN"
| "plus_double NInf PInf = NaN"
| "plus_double PInf b = PInf"
| "plus_double a PInf = PInf"
| "plus_double NInf b = NInf"
| "plus_double a NInf = NInf"
| "plus_double (Fin a) (Fin b) = Fin (a + b)"

definition minus_double :: "double \<Rightarrow> double \<Rightarrow> double" where
  "minus_double a b = a + (- b)"

fun times_double :: "double \<Rightarrow> double \<Rightarrow> double" where
  "times_double NaN b = NaN"
| "times_double a NaN = NaN"
| "times_double (Fin a) (Fin b) = Fin (a * b)"
| "times_double (Fin a) PInf = (if a = 0 then NaN else if 0 < a then PInf else NInf)"
| "times_double (Fin a) NInf = (if a = 0 then NaN else if 0 < a then NInf else PInf)"
| "times_double PInf (Fin b) = (if b = 0 then NaN else if 0 < b then PInf else NInf)"
| "times_double NInf (Fin b) = (if b = 0 then NaN else if 0 < b then NInf else PInf)"
| "times_double PInf PInf = PInf"
| "times_double PInf NInf = NInf"
| "times_double NInf PInf = NInf"
| "times_double NInf NInf = PInf"

fun divide_double :: "double \<Rightarrow> double \<Rightarrow> double" where
  "divide_double NaN b = NaN"
| "divide_double a NaN = NaN"
| "divide_double (Fin a) (Fin b) =
     (if b = 0 then (if a = 0 then NaN else if 0 < a then PInf else NInf)
      else Fin (a / b))"
| "divide_double (Fin a) PInf = Fin 0"
| "divide_double (Fin a) NInf = Fin 0"
| "divide_double PInf (Fin b) = (if 0 \<le> b then PInf else NInf)"
| "divide_double NInf (Fin b) = (if 0 \<le> b then NInf else PInf)"
| "divide_double PInf b = NaN"
| "divide_double NInf b = NaN"

definition inverse_double :: "double \<Rightarrow> double" where
  "inverse_double a = divide (Fin 1) a"

instance
proof
  fix x y z :: double
  show "x + y = y + x"
    by (induct x; induct y; simp)
  show "0 + x = x"
    by (induct x; simp add: zero_double_def)
  show "x + y + z = x + (y + z)"
    by (induct x; induct y; induct z; simp)
qed

end

text \<open>The comparison \<^verbatim>\<open>a == b\<close> of two doubles: \<open>NaN\<close> equals nothing, itself included.\<close>

definition deq :: "double \<Rightarrow> double \<Rightarrow> bool" where
  "deq a b = (a \<noteq> NaN \<and> b \<noteq> NaN \<and> a = b)"

subsection \<open>Printing an \<^verbatim>\<open>int\<close> with \<^verbatim>\<open>%d\<close>\<close>

definition digit :: "nat \<Rightarrow> char" where
  "digit d = ''0123456789'' ! d"

function show_nat :: "nat \<Rightarrow> string" where
  "show_nat n = (if n < 10 then [digit n] else show_nat (n div 10) @ [digit (n mod 10)])"
  by pat_completeness auto
termination
  by (relation "measure (\<lambda>n. n)") auto

declare show_nat.simps [simp del]

definition show_int :: "int \<Rightarrow> string" where
  "show_int i = (if i < 0 then ''-'' @ show_nat (nat (- i)) else show_nat (nat i))"

section \<open>Collaborators of the measurement code\<close>

subsection \<open>Images\<close>

text \<open>
  The image class belongs to \<^verbatim>\<open>lsst::afw::image\<close>.  The centroid code uses its origin
  \<^verbatim>\<open>getX0()\<close>, \<^verbatim>\<open>getY0()\<close> and the locator \<^verbatim>\<open>xy_at(x, y)\<close>, whose call
  \<^verbatim>\<open>im(dx, dy)\<close> reads the pixel \<open>dx\<close> columns and \<open>dy\<close> rows away from
  \<open>(x, y)\<close>.  The locator checks no bounds, so the pixel store is a function of
  the two indices.  The image is generic in its pixel type \<open>'p\<close>.  Coordinates
  are the unbounded integers.
\<close>

record 'p Image =
  getX0 :: int
  getY0 :: int
  pixel :: "int \<Rightarrow> int \<Rightarrow> 'p"

definition xy_at :: "'p Image \<Rightarrow> int \<Rightarrow> int \<Rightarrow> int \<Rightarrow> int \<Rightarrow> 'p" where
  "xy_at img x y = (\<lambda>dx dy. pixel img (x + dx) (y + dy))"

subsection \<open>Kernels and PSFs\<close>

text \<open>
  A kernel (\<^verbatim>\<open>lsst::afw::math::Kernel\<close>) is known here by its width and height.
  A PSF holds a pointer to a kernel, which may be null, and the size of its
  image realisations.
\<close>

record Kernel =
  Kernel_getWidth :: int
  Kernel_getHeight :: int

record PSF =
  psf_kernel :: "Kernel option"
  psf_width :: int
  psf_height :: int

text \<open>
  Modelled from the spec: \<^verbatim>\<open>PSF::getKernel\<close> is declared in PSF.h and defined
  elsewhere; the PSF "owns zero or one rasterization kernel", which the
  accessor returns.
\<close>

definition getKernel :: "PSF \<Rightarrow> Kernel option" where
  "getKernel psf = psf_kernel psf"

definition setWidth :: "int \<Rightarrow> PSF \<Rightarrow> PSF" where
  "setWidth width psf = psf\<lparr>psf_width := width\<rparr>"

definition getWidth :: "PSF \<Rightarrow> int" where
  "getWidth psf = psf_width psf"

definition setHeight :: "int \<Rightarrow> PSF \<Rightarrow> PSF" where
  "setHeight height psf = psf\<lparr>psf_height := height\<rparr>"

definition getHeight :: "PSF \<Rightarrow> int" where
  "getHeight psf = psf_height psf"

definition getDimensions :: "PSF \<Rightarrow> int \<times> int" where
  "getDimensions psf = (psf_width psf, psf_height psf)"

subsection \<open>Centroids\<close>

text \<open>
  Modelled from the spec: the class \<^verbatim>\<open>Centroid\<close> (Centroid.h) is not among the
  sources.  It is "a 2-D position plus per-axis error"; an error field that
  was not set is \<open>None\<close>.  The type \<open>'d\<close> is that of the doubles it holds.
\<close>

record 'd Centroid =
  getX :: 'd
  getXErr :: "'d option"
  getY :: 'd
  getYErr :: "'d option"

text \<open>
  Modelled from the spec: the constructor \<^verbatim>\<open>Centroid(x, y)\<close> that the naive
  estimator calls; the estimator "returns a Centroid with unset error fields".
\<close>

definition mk_Centroid :: "'d \<Rightarrow> 'd \<Rightarrow> 'd Centroid" where
  "mk_Centroid x y = \<lparr>getX = x, getXErr = None, getY = y, getYErr = None\<rparr>"

section \<open>The naive centroid estimator\<close>

subsection \<open>Machine arithmetic\<close>

text \<open>
  The estimator computes in two arithmetics of the machine: that of
  \<^verbatim>\<open>double\<close>, and that of the pixel type of the image, in which the pixel
  values are added before the result is converted to \<^verbatim>\<open>double\<close>.  Both are
  parameters of the model: a record of the operations the code applies.  The
  operations of \<^verbatim>\<open>double\<close> and of \<^verbatim>\<open>float\<close> round their results; nothing is
  assumed of them unless a theorem says so.
\<close>

record 'd double_ops =
  d_of_int :: "int \<Rightarrow> 'd"
  d_plus :: "'d \<Rightarrow> 'd \<Rightarrow> 'd"
  d_minus :: "'d \<Rightarrow> 'd \<Rightarrow> 'd"
  d_times :: "'d \<Rightarrow> 'd \<Rightarrow> 'd"
  d_divide :: "'d \<Rightarrow> 'd \<Rightarrow> 'd"
  d_eq :: "'d \<Rightarrow> 'd \<Rightarrow> bool"

record ('p, 'd) pixel_ops =
  p_plus :: "'p \<Rightarrow> 'p \<Rightarrow> 'p"
  p_minus :: "'p \<Rightarrow> 'p \<Rightarrow> 'p"
  p_uminus :: "'p \<Rightarrow> 'p"
  p_to_double :: "'p \<Rightarrow> 'd"

text \<open>
  The pixel arithmetic of \<^verbatim>\<open>Image<int>\<close>: a pixel is a 32-bit two's complement
  integer, and a sum that leaves the range wraps around (the C++ standard
  leaves signed overflow undefined; the compiled code wraps).  The conversion
  of an \<^verbatim>\<open>int\<close> to \<^verbatim>\<open>double\<close> is that of the double arithmetic.
\<close>

definition int_pixel_ops :: "'d double_ops \<Rightarrow> (32 word, 'd) pixel_ops" where
  "int_pixel_ops dops =
     \<lparr>p_plus = (\<lambda>a b. a + b), p_minus = (\<lambda>a b. a - b), p_uminus = (\<lambda>a. - a),
      p_to_double = (\<lambda>a. d_of_int dops (sint a))\<rparr>"

subsection \<open>The estimator\<close>

definition no_counts :: "int \<Rightarrow> int \<Rightarrow> string" where
  "no_counts x y = ''Object at ('' @ show_int x @ '', '' @ show_int y @ '') has no counts''"

text \<open>
  \<^verbatim>\<open>NaiveMeasureCentroid<ImageT>::doApply\<close>, which the source instantiates for
  images of \<^verbatim>\<open>int\<close> and of \<^verbatim>\<open>float\<close>.  The sums of pixel values are formed in
  the pixel type, from left to right as C++ parses them, and converted to
  \<^verbatim>\<open>double\<close> where the source does: \<open>sum\<close> before \<open>9*background\<close> is
  subtracted, \<open>sum_x\<close> and \<open>sum_y\<close> when they initialise a \<^verbatim>\<open>double\<close>.  The
  literals \<open>9\<close> and \<open>0.0\<close> are the doubles of the integers 9 and 0.
  \<^verbatim>\<open>indexToPosition\<close> belongs to \<^verbatim>\<open>lsst::afw::image\<close> and is a parameter.  The
  PSF pointer is an unnamed parameter of the source; a null pointer is \<open>None\<close>.
  The message of the exception is formatted from the translated coordinates.
\<close>

definition doApply ::
  "('p, 'd) pixel_ops \<Rightarrow> 'd double_ops \<Rightarrow> (int \<Rightarrow> 'd) \<Rightarrow> 'p Image \<Rightarrow> int \<Rightarrow> int \<Rightarrow>
   PSF option \<Rightarrow> 'd \<Rightarrow> exn + 'd Centroid" where
  "doApply pops dops indexToPosition img x y psf background =
     (let add = p_plus pops; sub = p_minus pops; neg = p_uminus pops;
          x = x - getX0 img;
          y = y - getY0 img;
          im = xy_at img x y;
          sum = d_minus dops
                  (p_to_double pops
                    (add (add (add (add (add (add (add (add
                       (im (-1) 1) (im 0 1)) (im 1 1))
                       (im (-1) 0)) (im 0 0)) (im 1 0))
                       (im (-1) (-1))) (im 0 (-1))) (im 1 (-1))))
                  (d_times dops (d_of_int dops 9) background)
      in if d_eq dops sum (d_of_int dops 0)
         then Inl (RuntimeErrorException (no_counts x y))
         else
           let sum_x = p_to_double pops
                         (add (add (add (add (add
                            (neg (im (-1) 1)) (im 1 1))
                            (neg (im (-1) 0))) (im 1 0))
                            (neg (im (-1) (-1)))) (im 1 (-1)));
               sum_y = p_to_double pops
                         (sub (add (add (im (-1) 1) (im 0 1)) (im 1 1))
                              (add (add (im (-1) (-1)) (im 0 (-1))) (im 1 (-1))))
           in Inr (mk_Centroid
                     (d_plus dops (indexToPosition (x + getX0 img)) (d_divide dops sum_x sum))
                     (d_plus dops (indexToPosition (y + getY0 img)) (d_divide dops sum_y sum))))"

subsection \<open>The quantities of the specification\<close>

text \<open>
  The specification's words, read in the machine's arithmetic.  The 3x3
  neighbourhood is centred at the pixel \<open>(x, y)\<close> translated by the image's
  origin.  A list of pixel values is added from left to right in the pixel
  type.  \<open>sum\<close> is the sum of all 9 pixel values, row by row from the top,
  converted to \<^verbatim>\<open>double\<close>, minus 9 times the background.  \<open>sum_x\<close> takes, row
  by row from the top, the right pixel minus the left pixel; \<open>sum_y\<close> is the top
  row sum minus the bottom row sum.
\<close>

definition neighbourhood :: "'p Image \<Rightarrow> int \<Rightarrow> int \<Rightarrow> int \<Rightarrow> int \<Rightarrow> 'p" where
  "neighbourhood img x y dx dy = pixel img (x - getX0 img + dx) (y - getY0 img + dy)"

definition left_to_right :: "('p \<Rightarrow> 'p \<Rightarrow> 'p) \<Rightarrow> 'p list \<Rightarrow> 'p" where
  "left_to_right f vs = foldl f (hd vs) (tl vs)"

definition row_values :: "'p Image \<Rightarrow> int \<Rightarrow> int \<Rightarrow> int \<Rightarrow> 'p list" where
  "row_values img x y dy = map (\<lambda>dx. neighbourhood img x y dx dy) [-1, 0, 1]"

definition row_sum :: "('p, 'd) pixel_ops \<Rightarrow> 'p Image \<Rightarrow> int \<Rightarrow> int \<Rightarrow> int \<Rightarrow> 'p" where
  "row_sum pops img x y dy = left_to_right (p_plus pops) (row_values img x y dy)"

definition centroid_sum ::
  "('p, 'd) pixel_ops \<Rightarrow> 'd double_ops \<Rightarrow> 'p Image \<Rightarrow> int \<Rightarrow> int \<Rightarrow> 'd \<Rightarrow> 'd" where
  "centroid_sum pops dops img x y background =
     d_minus dops
       (p_to_double pops
          (left_to_right (p_plus pops) (concat (map (row_values img x y) [1, 0, -1]))))
       (d_times dops (d_of_int dops 9) background)"

definition centroid_sum_x :: "('p, 'd) pixel_ops \<Rightarrow> 'p Image \<Rightarrow> int \<Rightarrow> int \<Rightarrow> 'd" where
  "centroid_sum_x pops img x y =
     p_to_double pops
       (left_to_right (p_plus pops)
          (concat (map (\<lambda>dy. [p_uminus pops (neighbourhood img x y (-1) dy),
                                neighbourhood img x y 1 dy]) [1, 0, -1])))"

definition centroid_sum_y :: "('p, 'd) pixel_ops \<Rightarrow> 'p Image \<Rightarrow> int \<Rightarrow> int \<Rightarrow> 'd" where
  "centroid_sum_y pops img x y =
     p_to_double pops (p_minus pops (row_sum pops img x y 1) (row_sum pops img x y (-1)))"

text \<open>
  The sum as a number, for an image of \<^verbatim>\<open>int\<close>: the nine pixel values added as
  integers, minus 9 times the background.
\<close>

definition exact_sum :: "32 word Image \<Rightarrow> int \<Rightarrow> int \<Rightarrow> real \<Rightarrow> real" where
  "exact_sum img x y background =
     of_int (sum_list (map sint (concat (map (row_values img x y) [1, 0, -1])))) - 9 * background"


section \<open>Shapes\<close>

text \<open>
  The covariance matrix is an \<^verbatim>\<open>Eigen::Matrix4f\<close>, read by \<^verbatim>\<open>_covar(i, j)\<close>.
  The constructor leaves it uninitialised, so its first contents are an
  argument of \<open>Shape_init\<close>.
\<close>

type_synonym Matrix4 = "nat \<Rightarrow> nat \<Rightarrow> double"

record Shape =
  shape_centroid :: "double Centroid"
  shape_m0 :: double
  shape_mxx :: double
  shape_mxy :: double
  shape_myy :: double
  shape_covar :: Matrix4
  shape_mxy4 :: double
  shape_flags :: int

definition Shape_init ::
  "Matrix4 \<Rightarrow> double \<Rightarrow> double \<Rightarrow> double \<Rightarrow> double \<Rightarrow> double Centroid \<Rightarrow> Shape" where
  "Shape_init uninitialised m0 mxx mxy myy centroid =
     \<lparr>shape_centroid = centroid, shape_m0 = m0,
      shape_mxx = mxx, shape_mxy = mxy, shape_myy = myy,
      shape_covar = uninitialised, shape_mxy4 = NaN, shape_flags = 0\<rparr>"

definition getCentroid :: "Shape \<Rightarrow> double Centroid" where
  "getCentroid s = shape_centroid s"

definition setM0 :: "double \<Rightarrow> Shape \<Rightarrow> Shape" where
  "setM0 m0 s = s\<lparr>shape_m0 := m0\<rparr>"

definition getM0 :: "Shape \<Rightarrow> double" where
  "getM0 s = shape_m0 s"

definition getM0Err :: "Shape \<Rightarrow> double" where
  "getM0Err s = shape_covar s 0 0"

definition setMxx :: "double \<Rightarrow> Shape \<Rightarrow> Shape" where
  "setMxx mxx s = s\<lparr>shape_mxx := mxx\<rparr>"

definition getMxx :: "Shape \<Rightarrow> double" where
  "getMxx s = shape_mxx s"

definition getMxxErr :: "Shape \<Rightarrow> double" where
  "getMxxErr s = shape_covar s 1 1"

definition setMxy :: "double \<Rightarrow> Shape \<Rightarrow> Shape" where
  "setMxy mxy s = s\<lparr>shape_mxy := mxy\<rparr>"

definition getMxy :: "Shape \<Rightarrow> double" where
  "getMxy s = shape_mxy s"

definition getMxyErr :: "Shape \<Rightarrow> double" where
  "getMxyErr s = shape_covar s 2 2"

definition setMyy :: "double \<Rightarrow> Shape \<Rightarrow> Shape" where
  "setMyy myy s = s\<lparr>shape_myy := myy\<rparr>"

definition getMyy :: "Shape \<Rightarrow> double" where
  "getMyy s = shape_myy s"

definition getMyyErr :: "Shape \<Rightarrow> double" where
  "getMyyErr s = shape_covar s 3 3"

definition setMxy4 :: "double \<Rightarrow> Shape \<Rightarrow> Shape" where
  "setMxy4 mxy4 s = s\<lparr>shape_mxy4 := mxy4\<rparr>"

definition getMxy4 :: "Shape \<Rightarrow> double" where
  "getMxy4 s = shape_mxy4 s"

definition setFlags :: "int \<Rightarrow> Shape \<Rightarrow> Shape" where
  "setFlags flags s = s\<lparr>shape_flags := flags\<rparr>"

definition getFlags :: "Shape \<Rightarrow> int" where
  "getFlags s = shape_flags s"

definition setCovar :: "Matrix4 \<Rightarrow> Shape \<Rightarrow> Shape" where
  "setCovar covar s = s\<lparr>shape_covar := covar\<rparr>"

definition getCovar :: "Shape \<Rightarrow> Matrix4" where
  "getCovar s = shape_covar s"

section \<open>PSFs\<close>

subsection \<open>Convolution\<close>

text \<open>
  \<^verbatim>\<open>PSF::convolve\<close>.  The routine \<^verbatim>\<open>lsst::afw::math::convolve\<close> it hands over to
  is a parameter; whatever that call does, its own exceptions included, is
  the value under \<open>Inr\<close>.
\<close>

definition convolve ::
  "('i \<Rightarrow> 'i \<Rightarrow> Kernel \<Rightarrow> bool \<Rightarrow> int \<Rightarrow> 'r) \<Rightarrow> PSF \<Rightarrow> 'i \<Rightarrow> 'i \<Rightarrow> bool \<Rightarrow> int \<Rightarrow> exn + 'r" where
  "convolve afw_convolve psf convolvedImage inImage doNormalize edgeBit =
     (case getKernel psf of
        None \<Rightarrow>
          Inl (RuntimeErrorException
                 ''PSF does not have a realisation that can be used for convolution'')
      | Some kern \<Rightarrow>
          if Kernel_getWidth kern \<le> 0 \<or> Kernel_getHeight kern \<le> 0
          then Inl (RuntimeErrorException
                      ''PSF does not have a realisation that can be used for convolution'')
          else Inr (afw_convolve convolvedImage inImage kern doNormalize edgeBit))"

subsection \<open>Factories\<close>

text \<open>
  \<^verbatim>\<open>PsfFactory<PsfT, PsfFactorySignatureT>\<close> is specialised for two signatures,
  \<^verbatim>\<open>boost::tuple<int, int, double, double, double>\<close> and
  \<^verbatim>\<open>lsst::afw::math::Kernel::Ptr\<close>.  A factory object records the class it
  builds, its signature, and whether \<^verbatim>\<open>markPersistent\<close> was called on it.
\<close>

datatype PsfFactorySignature = Sig_int_int_double_double_double | Sig_Kernel_Ptr

record 't PsfFactory =
  PsfT :: 't
  PsfFactorySignatureT :: PsfFactorySignature
  persistent :: bool

definition new_PsfFactory :: "'t \<Rightarrow> PsfFactorySignature \<Rightarrow> 't PsfFactory" where
  "new_PsfFactory t sig = \<lparr>PsfT = t, PsfFactorySignatureT = sig, persistent = False\<rparr>"


text \<open>The two \<^verbatim>\<open>create\<close> methods of \<^verbatim>\<open>PsfFactoryBase\<close>.\<close>

definition PsfFactoryBase_create_params ::
  "int \<Rightarrow> int \<Rightarrow> double \<Rightarrow> double \<Rightarrow> double \<Rightarrow> exn + 'p" where
  "PsfFactoryBase_create_params width height p0 p1 p2 =
     Inl (NotFoundException
            (''This PSF type doesn'' @ [CHR 0x27] @
             ''t have an (int, int, double, double, double) constructor''))"

definition PsfFactoryBase_create_kernel :: "Kernel option \<Rightarrow> exn + 'p" where
  "PsfFactoryBase_create_kernel ptr =
     Inl (NotFoundException
            (''This PSF type doesn'' @ [CHR 0x27] @
             ''t have a (lsst::afw::math::Kernel::Ptr) constructor''))"

text \<open>
  The two \<^verbatim>\<open>create\<close> methods of a \<^verbatim>\<open>PsfFactory\<close>, dispatched on the
  specialisation.  The constructors of the class \<^verbatim>\<open>PsfT\<close> are the parameters
  \<open>new_PsfT\<close>.
\<close>

definition create_params ::
  "('t \<Rightarrow> int \<Rightarrow> int \<Rightarrow> double \<Rightarrow> double \<Rightarrow> double \<Rightarrow> 'p) \<Rightarrow>
   't PsfFactory \<Rightarrow> int \<Rightarrow> int \<Rightarrow> double \<Rightarrow> double \<Rightarrow> double \<Rightarrow> exn + 'p" where
  "create_params new_PsfT factory width height p0 p1 p2 =
     (case PsfFactorySignatureT factory of
        Sig_int_int_double_double_double \<Rightarrow> Inr (new_PsfT (PsfT factory) width height p0 p1 p2)
      | Sig_Kernel_Ptr \<Rightarrow> PsfFactoryBase_create_params width height p0 p1 p2)"

definition create_kernel ::
  "('t \<Rightarrow> Kernel option \<Rightarrow> 'p) \<Rightarrow> 't PsfFactory \<Rightarrow> Kernel option \<Rightarrow> exn + 'p" where
  "create_kernel new_PsfT factory kern =
     (case PsfFactorySignatureT factory of
        Sig_int_int_double_double_double \<Rightarrow> PsfFactoryBase_create_kernel kern
      | Sig_Kernel_Ptr \<Rightarrow> Inr (new_PsfT (PsfT factory) kern))"

subsection \<open>Registration\<close>



section \<open>The algorithm registry\<close>

text \<open>
  Modelled from the spec: the registries (\<^verbatim>\<open>PSF::declare\<close>, \<^verbatim>\<open>PSF::lookup\<close>,
  \<^verbatim>\<open>measureShape::registerType\<close>) are declared in the headers and defined
  elsewhere.  The specification describes a mapping from algorithm name to a
  small integer type tag and from tag to a constructor, with
  \<open>register(name) -> tag\<close>: "if name is already registered, returns the existing
  tag (idempotent, no duplicate entries); otherwise allocates a fresh tag and
  stores the mapping".  The entries are kept as a list, so that a duplicate
  would show.
\<close>

record 'f AlgorithmRegistry =
  tags :: "(string \<times> nat) list"
  constructors :: "(nat \<times> 'f) list"

text \<open>
  Modelled from the spec: a fresh tag is one that no entry holds; here the
  least number above every tag in use.
\<close>

definition fresh_tag :: "(string \<times> nat) list \<Rightarrow> nat" where
  "fresh_tag ts = fold (\<lambda>(name, tag) m. max (Suc tag) m) ts 0"

text \<open>Modelled from the spec: \<open>register(name) -> tag\<close>, as quoted above.\<close>

definition register :: "string \<Rightarrow> 'f AlgorithmRegistry \<Rightarrow> nat \<times> 'f AlgorithmRegistry" where
  "register name r =
     (case map_of (tags r) name of
        Some tag \<Rightarrow> (tag, r)
      | None \<Rightarrow> (let tag = fresh_tag (tags r) in (tag, r\<lparr>tags := (name, tag) # tags r\<rparr>)))"


section \<open>Example inputs\<close>

text \<open>
  Modelled from the spec: \<^verbatim>\<open>indexToPosition\<close> belongs to \<^verbatim>\<open>lsst::afw::image\<close>.
  The specification calls it \<open>pixelCenter\<close>, which "maps an integer pixel index
  to its centroid convention (e.g. index + 0.5)".
\<close>

definition pixelCenter :: "int \<Rightarrow> double" where
  "pixelCenter i = Fin (of_int i + 1 / 2)"

text \<open>
  The exact operations on \<open>double\<close>, as a stand-in for the machine's: they
  agree wherever the exact result of each operation is a \<^verbatim>\<open>double\<close>, which is
  so at every input evaluated below.
\<close>

definition exact_ops :: "double double_ops" where
  "exact_ops =
     \<lparr>d_of_int = (\<lambda>i. Fin (of_int i)), d_plus = (\<lambda>a b. a + b), d_minus = (\<lambda>a b. a - b),
      d_times = (\<lambda>a b. a * b), d_divide = (\<lambda>a b. a / b), d_eq = deq\<rparr>"

text \<open>
  Images of \<^verbatim>\<open>int\<close>: one whose pixels all hold \<open>v\<close>; one whose pixel \<open>(i, j)\<close>
  holds \<open>3 i + 3 j\<close>; one that holds \<open>2^29\<close> everywhere but 0 at \<open>(1, 1)\<close>; and
  one that holds \<open>2^30\<close> where both indices are odd and 0 elsewhere.
\<close>

definition flat_image :: "int \<Rightarrow> int \<Rightarrow> 32 word \<Rightarrow> 32 word Image" where
  "flat_image x0 y0 v = \<lparr>getX0 = x0, getY0 = y0, pixel = (\<lambda>i j. v)\<rparr>"

definition ramp_image :: "int \<Rightarrow> int \<Rightarrow> 32 word Image" where
  "ramp_image x0 y0 = \<lparr>getX0 = x0, getY0 = y0, pixel = (\<lambda>i j. word_of_int (3 * i + 3 * j))\<rparr>"

definition ring_image :: "32 word Image" where
  "ring_image =
     \<lparr>getX0 = 0, getY0 = 0, pixel = (\<lambda>i j. if i = 1 \<and> j = 1 then 0 else 536870912)\<rparr>"

definition corner_image :: "32 word Image" where
  "corner_image =
     \<lparr>getX0 = 0, getY0 = 0, pixel = (\<lambda>i j. if odd i \<and> odd j then 1073741824 else 0)\<rparr>"

text \<open>A PSF with a kernel of the given size.\<close>

definition kernel_psf :: "int \<Rightarrow> int \<Rightarrow> PSF" where
  "kernel_psf w h =
     \<lparr>psf_kernel = Some \<lparr>Kernel_getWidth = w, Kernel_getHeight = h\<rparr>,
      psf_width = 0, psf_height = 0\<rparr>"

text \<open>
  Stand-ins that record the arguments they are called with: for the external
  convolution routine and for the constructors of a PSF class.
\<close>

definition convolve_call :: "string \<Rightarrow> string \<Rightarrow> Kernel \<Rightarrow> bool \<Rightarrow> int \<Rightarrow> string \<times> string \<times> Kernel \<times> bool \<times> int" where
  "convolve_call convolvedImage inImage kern doNormalize edgeBit =
     (convolvedImage, inImage, kern, doNormalize, edgeBit)"

datatype built_psf =
  Built_params string int int double double double
| Built_kernel string "Kernel option"

text \<open>A covariance matrix with the given diagonal and zeros elsewhere.\<close>

definition diagonal :: "double \<Rightarrow> double \<Rightarrow> double \<Rightarrow> double \<Rightarrow> Matrix4" where
  "diagonal a b c d = (\<lambda>i j. if i = j then [a, b, c, d] ! i else Fin 0)"

text \<open>A registry that holds one name, and the state of a program that has registered nothing else.\<close>

definition one_entry :: "(string PsfFactory) AlgorithmRegistry" where
  "one_entry = \<lparr>tags = [(''SDSS'', 0)], constructors = []\<rparr>"



section \<open>Exact arithmetic\<close>

lemma exact_ops_simps:
  "d_of_int exact_ops i = Fin (of_int i)"
  "d_plus exact_ops a b = a + b"
  "d_minus exact_ops a b = a - b"
  "d_times exact_ops a b = a * b"
  "d_divide exact_ops a b = a / b"
  "d_eq exact_ops a b = deq a b"
  by (simp_all add: exact_ops_def)

lemma minus_double_alt: "(a::double) - b = a + - b"
  by (simp add: minus_double_def)



section \<open>The code's sums are the specification's\<close>

lemma doApply_spec:
  "doApply pops dops indexToPosition img x y psf background =
     (if d_eq dops (centroid_sum pops dops img x y background) (d_of_int dops 0)
      then Inl (RuntimeErrorException (no_counts (x - getX0 img) (y - getY0 img)))
      else Inr (mk_Centroid
                  (d_plus dops (indexToPosition x)
                     (d_divide dops (centroid_sum_x pops img x y)
                        (centroid_sum pops dops img x y background)))
                  (d_plus dops (indexToPosition y)
                     (d_divide dops (centroid_sum_y pops img x y)
                        (centroid_sum pops dops img x y background)))))"
  by (simp add: doApply_def Let_def centroid_sum_def centroid_sum_x_def centroid_sum_y_def
      row_sum_def row_values_def left_to_right_def neighbourhood_def xy_at_def)

text \<open>
  On an image of \<^verbatim>\<open>int\<close> the sums are sums modulo \<open>2^32\<close>, so \<open>sum_x\<close> is the right
  column sum minus the left column sum.
\<close>

lemma centroid_sum_x_int:
  "centroid_sum_x (int_pixel_ops dops) img x y =
     d_of_int dops (sint
       ((neighbourhood img x y 1 1 + neighbourhood img x y 1 0 + neighbourhood img x y 1 (-1)) -
        (neighbourhood img x y (-1) 1 + neighbourhood img x y (-1) 0 +
         neighbourhood img x y (-1) (-1))))"
  by (simp add: centroid_sum_x_def int_pixel_ops_def left_to_right_def algebra_simps)


lemma flat_sums:
  fixes v :: "32 word"
  assumes "\<forall>dx \<in> {-1, 0, 1}. \<forall>dy \<in> {-1, 0, 1}. neighbourhood img x y dx dy = v"
  shows "centroid_sum (int_pixel_ops dops) dops img x y background =
           d_minus dops (d_of_int dops (sint (9 * v))) (d_times dops (d_of_int dops 9) background)"
    and "centroid_sum_x (int_pixel_ops dops) img x y = d_of_int dops 0"
    and "centroid_sum_y (int_pixel_ops dops) img x y = d_of_int dops 0"
  using assms
  by (simp_all add: centroid_sum_def centroid_sum_x_def centroid_sum_y_def row_sum_def
      row_values_def left_to_right_def int_pixel_ops_def)

text \<open>Values of the messages and of the example images.\<close>

lemma flat_image_origin: "getX0 (flat_image x0 y0 v) = x0" "getY0 (flat_image x0 y0 v) = y0"
  by (simp_all add: flat_image_def)

lemma flat_image_flat:
  "\<forall>dx \<in> {-1, 0, 1}. \<forall>dy \<in> {-1, 0, 1}. neighbourhood (flat_image x0 y0 v) x y dx dy = v"
  by (simp add: neighbourhood_def flat_image_def)

lemma message_3_4: "no_counts 3 4 = ''Object at (3, 4) has no counts''"
  by (simp add: no_counts_def show_int_def show_nat.simps digit_def)

lemma origin_zero: "no_counts 1 1 = ''Object at (1, 1) has no counts''"
  by (simp add: no_counts_def show_int_def show_nat.simps digit_def)

lemma message_2_2: "no_counts 2 2 = ''Object at (2, 2) has no counts''"
  by (simp add: no_counts_def show_int_def show_nat.simps digit_def)

lemma ramp_sums:
  "centroid_sum (int_pixel_ops exact_ops) exact_ops (ramp_image 2 3) 5 7 (Fin 20) = Fin 9"
  "centroid_sum_x (int_pixel_ops exact_ops) (ramp_image 2 3) 5 7 = Fin 18"
  "centroid_sum_y (int_pixel_ops exact_ops) (ramp_image 2 3) 5 7 = Fin 18"
  by (simp_all add: centroid_sum_def centroid_sum_x_def centroid_sum_y_def row_sum_def
      row_values_def left_to_right_def neighbourhood_def int_pixel_ops_def ramp_image_def
      exact_ops_simps minus_double_alt)

lemma ring_sum: "exact_sum ring_image 1 1 0 = 4294967296"
  unfolding exact_sum_def row_values_def neighbourhood_def
  by (simp add: ring_image_def)

lemma corner_sum: "exact_sum corner_image 2 2 0 = 4294967296"
  unfolding exact_sum_def row_values_def neighbourhood_def
  by (simp add: corner_image_def)

section \<open>Claims about the naive centroid estimator\<close>

text \<open>
  Claim C1, amended.  For every image, integer pixel position \<open>(x, y)\<close> and
  background level: when \<open>sum\<close> does not compare equal to 0, where \<open>sum\<close> is the
  nine pixel values of the 3x3 neighbourhood centred at the origin-translated
  \<open>(x, y)\<close>, added in the pixel type of the image and converted to \<^verbatim>\<open>double\<close>,
  minus 9 times the background in double arithmetic, \<open>doApply\<close> returns the
  centroid \<open>(indexToPosition x + sum_x / sum, indexToPosition y + sum_y / sum)\<close>
  in the original coordinate frame, with the division and the addition of
  double arithmetic, where \<open>sum_x\<close> adds, row by row, the right pixel minus the
  left pixel and \<open>sum_y\<close> is the top row sum minus the bottom row sum, both in
  the pixel type.
\<close>

theorem doApply_centroid:
  assumes "\<not> d_eq dops (centroid_sum pops dops img x y background) (d_of_int dops 0)"
  shows "doApply pops dops indexToPosition img x y psf background =
         Inr (mk_Centroid
                (d_plus dops (indexToPosition x)
                   (d_divide dops (centroid_sum_x pops img x y)
                      (centroid_sum pops dops img x y background)))
                (d_plus dops (indexToPosition y)
                   (d_divide dops (centroid_sum_y pops img x y)
                      (centroid_sum pops dops img x y background))))"
  using assms by (simp add: doApply_spec)

theorem doApply_centroid_witness:
  "doApply (int_pixel_ops exact_ops) exact_ops pixelCenter (ramp_image 2 3) 5 7 None (Fin 20) =
     Inr (mk_Centroid (Fin (15 / 2)) (Fin (19 / 2)))"
proof -
  have nz: "\<not> d_eq exact_ops
      (centroid_sum (int_pixel_ops exact_ops) exact_ops (ramp_image 2 3) 5 7 (Fin 20))
      (d_of_int exact_ops 0)"
    by (simp add: ramp_sums exact_ops_simps deq_def)
  from doApply_centroid [OF nz, of pixelCenter None] show ?thesis
    by (simp add: ramp_sums exact_ops_simps pixelCenter_def)
qed

text \<open>
  With the sum taken as a number the claim fails: on the image of \<^verbatim>\<open>int\<close> that
  holds \<open>2^29\<close> in the eight pixels around \<open>(1, 1)\<close> and 0 at \<open>(1, 1)\<close>, the nine
  values add up to \<open>2^32\<close>, which is not 0, but to 0 in 32-bit arithmetic, and
  the estimator throws.
\<close>

theorem doApply_centroid_counterexample:
  "exact_sum ring_image 1 1 0 = 4294967296 \<and>
   doApply (int_pixel_ops exact_ops) exact_ops pixelCenter ring_image 1 1 None (Fin 0) =
     Inl (RuntimeErrorException ''Object at (1, 1) has no counts'')"
proof -
  have "doApply (int_pixel_ops exact_ops) exact_ops pixelCenter ring_image 1 1 None (Fin 0) =
     Inl (RuntimeErrorException ''Object at (1, 1) has no counts'')"
    by (simp add: doApply_def Let_def xy_at_def int_pixel_ops_def ring_image_def
        exact_ops_simps minus_double_alt deq_def origin_zero)
  with ring_sum show ?thesis
    by simp
qed

text \<open>
  Claim C2, amended.  For every image, position and background level,
  \<open>doApply\<close> throws if and only if \<open>sum\<close>, formed as the code forms it (the nine
  pixel values added in the pixel type of the image, converted to \<^verbatim>\<open>double\<close>,
  minus 9 times the background in double arithmetic), compares equal to 0; the
  exception is the \<^verbatim>\<open>RuntimeErrorException\<close> that reports no counts at the
  translated position, and there is no other failure.
\<close>

theorem doApply_fails_iff_no_counts:
  "(\<exists>e. doApply pops dops indexToPosition img x y psf background = Inl e) =
     d_eq dops (centroid_sum pops dops img x y background) (d_of_int dops 0) \<and>
   (\<forall>e. doApply pops dops indexToPosition img x y psf background = Inl e \<longrightarrow>
        e = RuntimeErrorException (no_counts (x - getX0 img) (y - getY0 img)))"
  by (simp add: doApply_spec)

theorem doApply_fails_iff_no_counts_witness:
  "doApply (int_pixel_ops exact_ops) exact_ops pixelCenter (flat_image 1 2 2) 4 6 None (Fin 2) =
     Inl (RuntimeErrorException ''Object at (3, 4) has no counts'')"
proof -
  have z: "d_eq exact_ops
      (centroid_sum (int_pixel_ops exact_ops) exact_ops (flat_image 1 2 2) 4 6 (Fin 2))
      (d_of_int exact_ops 0)"
    by (simp add: flat_sums(1) [OF flat_image_flat] exact_ops_simps minus_double_alt deq_def)
  note t = doApply_fails_iff_no_counts
             [of "int_pixel_ops exact_ops" exact_ops pixelCenter "flat_image 1 2 2" 4 6 None "Fin 2"]
  from t z obtain e where
    e: "doApply (int_pixel_ops exact_ops) exact_ops pixelCenter (flat_image 1 2 2) 4 6 None (Fin 2) =
        Inl e"
    by blast
  with t have "e = RuntimeErrorException (no_counts (4 - getX0 (flat_image 1 2 (2::32 word)))
      (6 - getY0 (flat_image 1 2 (2::32 word))))"
    by blast
  with e show ?thesis
    by (simp add: flat_image_origin message_3_4)
qed

text \<open>
  With the sum taken as a number the equivalence fails: on the image of \<^verbatim>\<open>int\<close>
  that holds \<open>2^30\<close> at the four corners of the neighbourhood of \<open>(2, 2)\<close> and 0
  elsewhere, the nine values add up to \<open>2^32\<close>, but to 0 in 32-bit arithmetic,
  and the estimator throws.
\<close>

theorem doApply_fails_iff_no_counts_counterexample:
  "exact_sum corner_image 2 2 0 = 4294967296 \<and>
   doApply (int_pixel_ops exact_ops) exact_ops pixelCenter corner_image 2 2 None (Fin 0) =
     Inl (RuntimeErrorException ''Object at (2, 2) has no counts'')"
proof -
  have "doApply (int_pixel_ops exact_ops) exact_ops pixelCenter corner_image 2 2 None (Fin 0) =
     Inl (RuntimeErrorException ''Object at (2, 2) has no counts'')"
    by (simp add: doApply_def Let_def xy_at_def int_pixel_ops_def corner_image_def
        exact_ops_simps minus_double_alt deq_def message_2_2)
  with corner_sum show ?thesis
    by simp
qed




text \<open>
  Claim C8.  For every image, position and background, two runs of \<open>doApply\<close>
  that differ only in the PSF argument, null or not, give the same result, and
  the error fields of a returned centroid are unset.
\<close>

theorem doApply_ignores_psf:
  "doApply pops dops indexToPosition img x y psf1 background =
     doApply pops dops indexToPosition img x y psf2 background \<and>
   (\<forall>c. doApply pops dops indexToPosition img x y psf1 background = Inr c \<longrightarrow>
        getXErr c = None \<and> getYErr c = None)"
  by (auto simp: doApply_spec mk_Centroid_def)

theorem doApply_ignores_psf_witness:
  "doApply (int_pixel_ops exact_ops) exact_ops pixelCenter (ramp_image 0 0) 1 1 None (Fin 5) =
     Inr (mk_Centroid (Fin (7 / 2)) (Fin (7 / 2))) \<and>
   doApply (int_pixel_ops exact_ops) exact_ops pixelCenter (ramp_image 0 0) 1 1
       (Some (kernel_psf 5 5)) (Fin 5) =
     Inr (mk_Centroid (Fin (7 / 2)) (Fin (7 / 2))) \<and>
   getXErr (mk_Centroid (Fin (7 / 2)) (Fin (7 / 2))) = None \<and>
   getYErr (mk_Centroid (Fin (7 / 2)) (Fin (7 / 2))) = None"
proof -
  have run: "doApply (int_pixel_ops exact_ops) exact_ops pixelCenter (ramp_image 0 0) 1 1 None (Fin 5) =
     Inr (mk_Centroid (Fin (7 / 2)) (Fin (7 / 2)))"
    by (simp add: doApply_def Let_def xy_at_def ramp_image_def int_pixel_ops_def pixelCenter_def
        exact_ops_simps deq_def minus_double_alt)
  note t = doApply_ignores_psf
             [of "int_pixel_ops exact_ops" exact_ops pixelCenter "ramp_image 0 0" 1 1 None "Fin 5"
                 "Some (kernel_psf 5 5)"]
  from t run show ?thesis
    by auto
qed

section \<open>Claims about PSFs\<close>

text \<open>
  Claim C3.  For every PSF and every pair of images, \<open>convolve\<close> throws if and
  only if the PSF has no kernel or the kernel's width or height is not
  positive, and the exception is the \<^verbatim>\<open>RuntimeErrorException\<close> that reports
  no usable realisation; otherwise it hands over to the convolution routine
  with the same images, the PSF's kernel, \<open>doNormalize\<close> and \<open>edgeBit\<close>.
\<close>

theorem convolve_precondition:
  "(\<exists>e. convolve afw_convolve psf convolvedImage inImage doNormalize edgeBit = Inl e) =
     (getKernel psf = None \<or>
      (\<exists>k. getKernel psf = Some k \<and> (Kernel_getWidth k \<le> 0 \<or> Kernel_getHeight k \<le> 0))) \<and>
   (\<forall>e. convolve afw_convolve psf convolvedImage inImage doNormalize edgeBit = Inl e \<longrightarrow>
        e = RuntimeErrorException
              ''PSF does not have a realisation that can be used for convolution'') \<and>
   (\<forall>k. getKernel psf = Some k \<and> 0 < Kernel_getWidth k \<and> 0 < Kernel_getHeight k \<longrightarrow>
        convolve afw_convolve psf convolvedImage inImage doNormalize edgeBit =
          Inr (afw_convolve convolvedImage inImage k doNormalize edgeBit))"
  by (cases "getKernel psf") (auto simp: convolve_def)

theorem convolve_precondition_witness:
  "getKernel (kernel_psf 0 5) = Some \<lparr>Kernel_getWidth = 0, Kernel_getHeight = 5\<rparr> \<and>
   convolve convolve_call (kernel_psf 0 5) ''out'' ''in'' True (-1) =
     Inl (RuntimeErrorException
            ''PSF does not have a realisation that can be used for convolution'') \<and>
   getKernel (kernel_psf 3 5) = Some \<lparr>Kernel_getWidth = 3, Kernel_getHeight = 5\<rparr> \<and>
   convolve convolve_call (kernel_psf 3 5) ''out'' ''in'' True (-1) =
     Inr (''out'', ''in'', \<lparr>Kernel_getWidth = 3, Kernel_getHeight = 5\<rparr>, True, -1)"
proof -
  have k0: "getKernel (kernel_psf 0 5) = Some \<lparr>Kernel_getWidth = 0, Kernel_getHeight = 5\<rparr>"
    and k3: "getKernel (kernel_psf 3 5) = Some \<lparr>Kernel_getWidth = 3, Kernel_getHeight = 5\<rparr>"
    by (simp_all add: getKernel_def kernel_psf_def)
  note bad = convolve_precondition [of convolve_call "kernel_psf 0 5" "''out''" "''in''" True "-1"]
  note good = convolve_precondition [of convolve_call "kernel_psf 3 5" "''out''" "''in''" True "-1"]
  from bad k0 obtain e where
    e: "convolve convolve_call (kernel_psf 0 5) ''out'' ''in'' True (-1) = Inl e"
    by auto
  with bad have "e = RuntimeErrorException
      ''PSF does not have a realisation that can be used for convolution''"
    by blast
  with e have failed: "convolve convolve_call (kernel_psf 0 5) ''out'' ''in'' True (-1) =
     Inl (RuntimeErrorException
            ''PSF does not have a realisation that can be used for convolution'')"
    by simp
  from good k3 have "convolve convolve_call (kernel_psf 3 5) ''out'' ''in'' True (-1) =
     Inr (convolve_call ''out'' ''in'' \<lparr>Kernel_getWidth = 3, Kernel_getHeight = 5\<rparr> True (-1))"
    by simp
  with failed k0 k3 show ?thesis
    by (simp add: convolve_call_def)
qed

text \<open>
  Claim C4.  A factory specialised for the kernel signature throws from the
  \<open>(int, int, double, double, double)\<close> creation method, and a factory
  specialised for that parametric signature throws from the kernel creation
  method; in both cases the exception is a \<^verbatim>\<open>NotFoundException\<close> whose message
  names the missing constructor signature.
\<close>

theorem create_other_signature:
  "(PsfFactorySignatureT factory = Sig_Kernel_Ptr \<longrightarrow>
      create_params new_params factory width height p0 p1 p2 =
        Inl (NotFoundException
          ''This PSF type doesn't have an (int, int, double, double, double) constructor'')) \<and>
   (PsfFactorySignatureT factory = Sig_int_int_double_double_double \<longrightarrow>
      create_kernel new_kernel factory kern =
        Inl (NotFoundException
          ''This PSF type doesn't have a (lsst::afw::math::Kernel::Ptr) constructor''))"
  by (simp add: create_params_def create_kernel_def PsfFactoryBase_create_params_def
      PsfFactoryBase_create_kernel_def)

theorem create_other_signature_witness:
  "PsfFactorySignatureT (new_PsfFactory ''DoubleGaussian'' Sig_int_int_double_double_double) =
     Sig_int_int_double_double_double \<and>
   create_kernel Built_kernel
     (new_PsfFactory ''DoubleGaussian'' Sig_int_int_double_double_double) None =
     Inl (NotFoundException
       ''This PSF type doesn't have a (lsst::afw::math::Kernel::Ptr) constructor'') \<and>
   PsfFactorySignatureT (new_PsfFactory ''PCA'' Sig_Kernel_Ptr) = Sig_Kernel_Ptr \<and>
   create_params Built_params (new_PsfFactory ''PCA'' Sig_Kernel_Ptr) 15 15 (Fin 1) (Fin 2) (Fin 0) =
     Inl (NotFoundException
       ''This PSF type doesn't have an (int, int, double, double, double) constructor'')"
proof -
  have p: "PsfFactorySignatureT (new_PsfFactory ''DoubleGaussian'' Sig_int_int_double_double_double) =
     Sig_int_int_double_double_double"
    and k: "PsfFactorySignatureT (new_PsfFactory ''PCA'' Sig_Kernel_Ptr) = Sig_Kernel_Ptr"
    by (simp_all add: new_PsfFactory_def)
  from create_other_signature
         [of "new_PsfFactory ''DoubleGaussian'' Sig_int_int_double_double_double"
             Built_params 0 0 "Fin 0" "Fin 0" "Fin 0" Built_kernel None]
       create_other_signature
         [of "new_PsfFactory ''PCA'' Sig_Kernel_Ptr"
             Built_params 15 15 "Fin 1" "Fin 2" "Fin 0" Built_kernel None]
       p k
  show ?thesis
    by simp
qed

section \<open>Claims about shapes\<close>

text \<open>
  Claim C5.  For every shape and every 4x4 covariance matrix, after
  \<open>setCovar\<close> the accessors \<open>getM0Err\<close>, \<open>getMxxErr\<close>, \<open>getMxyErr\<close> and
  \<open>getMyyErr\<close> return the diagonal entries \<open>(0,0)\<close>, \<open>(1,1)\<close>, \<open>(2,2)\<close> and
  \<open>(3,3)\<close> of that matrix.
\<close>

theorem setCovar_diagonal:
  "getM0Err (setCovar covar s) = covar 0 0 \<and>
   getMxxErr (setCovar covar s) = covar 1 1 \<and>
   getMxyErr (setCovar covar s) = covar 2 2 \<and>
   getMyyErr (setCovar covar s) = covar 3 3"
  by (simp add: getM0Err_def getMxxErr_def getMxyErr_def getMyyErr_def setCovar_def)

theorem setCovar_diagonal_witness:
  "getM0Err (setCovar (diagonal (Fin 4) (Fin 1) (Fin 2) (Fin 3))
     (Shape_init (diagonal 0 0 0 0) NaN NaN NaN NaN (mk_Centroid NaN NaN))) = Fin 4 \<and>
   getMxxErr (setCovar (diagonal (Fin 4) (Fin 1) (Fin 2) (Fin 3))
     (Shape_init (diagonal 0 0 0 0) NaN NaN NaN NaN (mk_Centroid NaN NaN))) = Fin 1 \<and>
   getMxyErr (setCovar (diagonal (Fin 4) (Fin 1) (Fin 2) (Fin 3))
     (Shape_init (diagonal 0 0 0 0) NaN NaN NaN NaN (mk_Centroid NaN NaN))) = Fin 2 \<and>
   getMyyErr (setCovar (diagonal (Fin 4) (Fin 1) (Fin 2) (Fin 3))
     (Shape_init (diagonal 0 0 0 0) NaN NaN NaN NaN (mk_Centroid NaN NaN))) = Fin 3"
  using setCovar_diagonal
          [of "diagonal (Fin 4) (Fin 1) (Fin 2) (Fin 3)"
              "Shape_init (diagonal 0 0 0 0) NaN NaN NaN NaN (mk_Centroid NaN NaN)"]
  by (simp add: diagonal_def)

section \<open>Claims about registration\<close>

lemma register_registered:
  "map_of (tags (snd (register name r))) name = Some (fst (register name r))"
  by (simp add: register_def Let_def split: option.split)

lemma register_names:
  "map fst (tags (snd (register name r))) =
     (if name \<in> set (map fst (tags r)) then map fst (tags r) else name # map fst (tags r))"
proof (cases "map_of (tags r) name")
  case None
  then have "name \<notin> fst ` set (tags r)"
    by (simp add: map_of_eq_None_iff)
  then show ?thesis
    unfolding register_def None by (simp add: Let_def)
next
  case (Some tag)
  then have "name \<in> fst ` set (tags r)"
    using map_of_eq_None_iff [of "tags r" name] by simp
  with Some show ?thesis
    by (simp add: register_def)
qed

text \<open>
  Claim C9.  For every name, registering it a second time returns the tag of
  the first registration and leaves the registry as the first registration
  left it: the number of entries does not grow, and if no name occurred twice
  before, none does afterwards.
\<close>

theorem register_twice:
  "register name (snd (register name r)) = (fst (register name r), snd (register name r)) \<and>
   length (tags (snd (register name (snd (register name r))))) =
     length (tags (snd (register name r))) \<and>
   (distinct (map fst (tags r)) \<longrightarrow>
      distinct (map fst (tags (snd (register name (snd (register name r)))))))"
proof -
  have again: "register name (snd (register name r)) =
      (fst (register name r), snd (register name r))"
    using register_registered [of name r] by (simp add: register_def [of name "snd (register name r)"])
  have "distinct (map fst (tags (snd (register name r))))" if "distinct (map fst (tags r))"
    using that by (simp add: register_names)
  with again show ?thesis
    by simp
qed

theorem register_twice_witness:
  "distinct (map fst (tags one_entry)) \<and>
   register ''NAIVE'' one_entry =
     (1, \<lparr>tags = [(''NAIVE'', 1), (''SDSS'', 0)], constructors = []\<rparr>) \<and>
   register ''NAIVE'' (snd (register ''NAIVE'' one_entry)) =
     (1, \<lparr>tags = [(''NAIVE'', 1), (''SDSS'', 0)], constructors = []\<rparr>) \<and>
   distinct (map fst (tags (snd (register ''NAIVE'' (snd (register ''NAIVE'' one_entry))))))"
proof -
  have d: "distinct (map fst (tags one_entry))"
    by (simp add: one_entry_def)
  have first: "register ''NAIVE'' one_entry =
     (1, \<lparr>tags = [(''NAIVE'', 1), (''SDSS'', 0)], constructors = []\<rparr>)"
    by (simp add: register_def one_entry_def fresh_tag_def)
  from register_twice [of "''NAIVE''" one_entry] d first show ?thesis
    by simp
qed




end
